theory Spec2Isabelle
  imports Main
begin

section \<open>The search-and-selection controller of the GitHub explorer\<close>

text \<open>
  The controller is the React component \<open>Welcome\<close>: twelve state cells, the handlers
  \<open>searchUsers\<close>, \<open>fetchUserRepositories\<close>, \<open>handleUserSelect\<close>, \<open>handleSearchChange\<close>,
  \<open>handleKeyPress\<close>, \<open>handleNextPage\<close>, \<open>handlePrevPage\<close> and \<open>toggleTheme\<close>, and the effect
  that loads the theme.
  The state cells are one record; a handler is a function from the state to the new state.
  The two \<open>async\<close> handlers are cut at their \<open>await\<close>: the part that runs when the handler is
  called (\<open>_begin\<close>, which may issue a request) and the part that runs when the request has
  settled (\<open>_resume\<close>, which takes the outcome of \<open>fetch\<close> and of \<open>response.json()\<close>).
  No state cell is written between the two awaits of a handler, so they are one cut.
\<close>

subsection \<open>Data\<close>

text \<open>The interfaces \<open>GitHubUser\<close> and \<open>GitHubRepo\<close>. The field \<open>id\<close> is suffixed (HOL has
  \<open>id\<close>), as are the fields of the repository that the user has too. Numbers are integers;
  the controller reads none of them.\<close>

record GitHubUser =
  id_user :: int
  login :: string
  avatar_url :: string
  html_url :: string
  public_repos :: int
  score :: int

record GitHubRepo =
  id_repo :: int
  name_repo :: string
  full_name :: string
  description :: "string option"
  html_url_repo :: string
  stargazers_count :: int
  language :: "string option"
  updated_at :: string

text \<open>The \<open>useState\<close> cells of \<open>Welcome\<close>, under their own names.\<close>

record state =
  searchTerm :: string
  users :: "GitHubUser list"
  selectedUser :: "GitHubUser option"
  repositories :: "GitHubRepo list"
  searchLoading :: bool
  reposLoading :: bool
  hasSearched :: bool
  error :: "string option"
  currentPage :: int
  totalUsers :: int
  hasNextPage :: bool
  isDarkMode :: bool

text \<open>The initial values of the cells.\<close>

definition initial_state :: state where
  "initial_state = \<lparr> searchTerm = [], users = [], selectedUser = None, repositories = [],
     searchLoading = False, reposLoading = False, hasSearched = False, error = None,
     currentPage = 1, totalUsers = 0, hasNextPage = False, isDarkMode = False \<rparr>"

definition usersPerPage :: int where
  "usersPerPage = 5"

subsection \<open>What a request can come back with\<close>

text \<open>A value that \<open>catch (err)\<close> receives: an \<open>Error\<close> instance with its message, or anything
  else. The handler shows \<open>err.message\<close> for the first and a fixed text for the second.\<close>

datatype thrown = ErrorObj string | NonError

fun thrown_message :: "thrown \<Rightarrow> string" where
  "thrown_message (ErrorObj m) = m"
| "thrown_message NonError = ''An error occurred''"

text \<open>The \<open>TypeError\<close> the engine raises on reading a property of \<open>undefined\<close> or \<open>null\<close>.
  Its message is the engine's; no theorem depends on the text.\<close>

definition TypeError :: thrown where
  "TypeError = ErrorObj ''Cannot read properties of undefined''"

text \<open>\<open>await response.json()\<close> throws or yields the decoded body; \<open>await fetch(...)\<close> throws or
  yields a response with its \<open>ok\<close> flag. The body is read only when \<open>ok\<close> holds.\<close>

datatype 'a json_result = JsonThrows thrown | JsonValue 'a

datatype 'a fetch_result = FetchThrows thrown | Response bool "'a json_result"

text \<open>The decoded body of the search endpoint, as far as \<open>searchUsers\<close> reads it: the value
  \<open>null\<close>, or a value with the properties \<open>items\<close> and \<open>total_count\<close>, each of which may be
  missing (\<open>None\<close>: \<open>undefined\<close> or \<open>null\<close>). A present \<open>items\<close> is an array of users and a
  present \<open>total_count\<close> is an integer.\<close>

datatype search_data = DataNull | DataObj "GitHubUser list option" "int option"

text \<open>The requests, by the parameters the handlers put into the URL.\<close>

record search_request =
  q :: string
  per_page :: int
  page :: int

record repos_request =
  username :: string

subsection \<open>Pieces of JavaScript\<close>

text \<open>\<open>String.prototype.trim\<close>. A string is the list of its code units, and a \<open>char\<close> is a
  code unit below 256. The white space and line terminators of the language among them are
  tab, line feed, vertical tab, form feed, carriage return, space and the no-break space
  U+00A0; the others that \<open>trim\<close> strips (U+FEFF, U+2028, U+2029 and the space separators
  from U+1680 on) are not code units of this type.\<close>

definition is_white_space :: "char \<Rightarrow> bool" where
  "is_white_space c =
     (c \<in> set [CHR 0x09, CHR 0x0A, CHR 0x0B, CHR 0x0C, CHR 0x0D, CHR 0x20, CHR 0xA0])"

definition trim :: "string \<Rightarrow> string" where
  "trim s = rev (dropWhile is_white_space (rev (dropWhile is_white_space s)))"

text \<open>\<open>Math.ceil(n / d)\<close> on integers, for a positive \<open>d\<close>.\<close>

definition ceil_div :: "int \<Rightarrow> int \<Rightarrow> int" where
  "ceil_div n d = - ((- n) div d)"

text \<open>\<open>Math.min(Math.ceil(data.total_count / usersPerPage), 200)\<close>: a missing \<open>total_count\<close>
  makes the quotient \<open>NaN\<close>, which \<open>Math.ceil\<close> and \<open>Math.min\<close> pass on (\<open>None\<close>).\<close>

definition totalPages :: "int option \<Rightarrow> int option" where
  "totalPages tc = (case tc of None \<Rightarrow> None | Some n \<Rightarrow> Some (min (ceil_div n usersPerPage) 200))"

text \<open>\<open>page < totalPages\<close>: every comparison with \<open>NaN\<close> is false.\<close>

fun js_less :: "int \<Rightarrow> int option \<Rightarrow> bool" where
  "js_less p None = False"
| "js_less p (Some t) = (p < t)"

subsection \<open>searchUsers\<close>

text \<open>The handler up to \<open>await fetch\<close>: the reset of a blank query, which returns with no
  request, or the three writes before the \<open>try\<close> and the request.\<close>

definition searchUsers_begin :: "string \<Rightarrow> int \<Rightarrow> state \<Rightarrow> state \<times> search_request option" where
  "searchUsers_begin query pg s =
     (if trim query = []
      then (s\<lparr> users := [], totalUsers := 0, hasNextPage := False, currentPage := 1,
               hasSearched := False \<rparr>, None)
      else (s\<lparr> searchLoading := True, hasSearched := True, error := None \<rparr>,
            Some \<lparr> q = query, per_page = usersPerPage, page = pg \<rparr>))"

text \<open>The body of the \<open>try\<close> after the request has settled. It either completes (\<open>Inr\<close>) or
  throws (\<open>Inl\<close>), and a throw keeps the writes made before it. The conjunction
  \<open>page < totalPages && data.items.length === usersPerPage\<close> reads \<open>data.items.length\<close> only
  when its left operand is true.\<close>

definition searchUsers_try :: "int \<Rightarrow> search_data fetch_result \<Rightarrow> state \<Rightarrow> (thrown \<times> state) + state" where
  "searchUsers_try pg r s =
     (case r of
        FetchThrows e \<Rightarrow> Inl (e, s)
      | Response ok body \<Rightarrow>
          if \<not> ok then Inl (ErrorObj ''Failed to search users'', s)
          else (case body of
                  JsonThrows e \<Rightarrow> Inl (e, s)
                | JsonValue DataNull \<Rightarrow> Inl (TypeError, s)
                | JsonValue (DataObj items total_count) \<Rightarrow>
                    let s1 = s\<lparr> users := (case items of None \<Rightarrow> [] | Some xs \<Rightarrow> xs) \<rparr>;
                        s2 = s1\<lparr> totalUsers := (case total_count of None \<Rightarrow> 0 | Some n \<Rightarrow> n) \<rparr>;
                        s3 = s2\<lparr> currentPage := pg \<rparr>
                    in if js_less pg (totalPages total_count)
                       then (case items of
                               None \<Rightarrow> Inl (TypeError, s3)
                             | Some xs \<Rightarrow> Inr (s3\<lparr> hasNextPage := (int (length xs) = usersPerPage) \<rparr>))
                       else Inr (s3\<lparr> hasNextPage := False \<rparr>)))"

definition searchUsers_catch :: "thrown \<Rightarrow> state \<Rightarrow> state" where
  "searchUsers_catch err s =
     s\<lparr> error := Some (thrown_message err), users := [], totalUsers := 0, hasNextPage := False \<rparr>"

definition searchUsers_finally :: "state \<Rightarrow> state" where
  "searchUsers_finally s = s\<lparr> searchLoading := False \<rparr>"

text \<open>The handler from the settled request to its end: \<open>try\<close>, \<open>catch\<close>, \<open>finally\<close>.\<close>

definition searchUsers_resume :: "int \<Rightarrow> search_data fetch_result \<Rightarrow> state \<Rightarrow> state" where
  "searchUsers_resume pg r s =
     searchUsers_finally
       (case searchUsers_try pg r s of
          Inl (err, s') \<Rightarrow> searchUsers_catch err s'
        | Inr s' \<Rightarrow> s')"

text \<open>One call run to completion with nothing in between, against a server that answers each
  request.\<close>

definition searchUsers :: "(search_request \<Rightarrow> search_data fetch_result) \<Rightarrow> string \<Rightarrow> int \<Rightarrow> state \<Rightarrow> state" where
  "searchUsers server query pg s =
     (case searchUsers_begin query pg s of
        (s', None) \<Rightarrow> s'
      | (s', Some req) \<Rightarrow> searchUsers_resume (page req) (server req) s')"

subsection \<open>fetchUserRepositories and handleUserSelect\<close>

definition fetchUserRepositories_begin :: "string \<Rightarrow> state \<Rightarrow> state \<times> repos_request" where
  "fetchUserRepositories_begin uname s =
     (s\<lparr> reposLoading := True, error := None \<rparr>, \<lparr> username = uname \<rparr>)"

definition fetchUserRepositories_try :: "GitHubRepo list fetch_result \<Rightarrow> state \<Rightarrow> (thrown \<times> state) + state" where
  "fetchUserRepositories_try r s =
     (case r of
        FetchThrows e \<Rightarrow> Inl (e, s)
      | Response ok body \<Rightarrow>
          if \<not> ok then Inl (ErrorObj ''Failed to fetch repositories'', s)
          else (case body of
                  JsonThrows e \<Rightarrow> Inl (e, s)
                | JsonValue data \<Rightarrow> Inr (s\<lparr> repositories := data \<rparr>)))"

definition fetchUserRepositories_catch :: "thrown \<Rightarrow> state \<Rightarrow> state" where
  "fetchUserRepositories_catch err s = s\<lparr> error := Some (thrown_message err), repositories := [] \<rparr>"

definition fetchUserRepositories_finally :: "state \<Rightarrow> state" where
  "fetchUserRepositories_finally s = s\<lparr> reposLoading := False \<rparr>"

definition fetchUserRepositories_resume :: "GitHubRepo list fetch_result \<Rightarrow> state \<Rightarrow> state" where
  "fetchUserRepositories_resume r s =
     fetchUserRepositories_finally
       (case fetchUserRepositories_try r s of
          Inl (err, s') \<Rightarrow> fetchUserRepositories_catch err s'
        | Inr s' \<Rightarrow> s')"

text \<open>\<open>handleUserSelect\<close> up to the await of the fetch it starts.\<close>

definition handleUserSelect :: "GitHubUser \<Rightarrow> state \<Rightarrow> state \<times> repos_request" where
  "handleUserSelect user s = fetchUserRepositories_begin (login user) (s\<lparr> selectedUser := Some user \<rparr>)"

text \<open>A fetch fails when \<open>fetch\<close> throws, the status is not a success, or the body does not
  parse.\<close>

fun failed :: "'a fetch_result \<Rightarrow> bool" where
  "failed (FetchThrows e) = True"
| "failed (Response ok (JsonThrows e)) = True"
| "failed (Response ok (JsonValue d)) = (\<not> ok)"

subsection \<open>The remaining handlers\<close>

definition handleSearchChange :: "string \<Rightarrow> state \<Rightarrow> state" where
  "handleSearchChange v s = s\<lparr> searchTerm := v \<rparr>"

definition toggleTheme :: "state \<Rightarrow> state" where
  "toggleTheme s = s\<lparr> isDarkMode := \<not> isDarkMode s \<rparr>"

text \<open>The effect that runs once after mounting: the theme saved in the browser's storage, if
  there is one (and it is not the empty string), else the system's preference. The second
  effect stores the theme and sets the class of the document; it writes no cell.\<close>

definition initTheme :: "string option \<Rightarrow> bool \<Rightarrow> state \<Rightarrow> state" where
  "initTheme savedTheme prefersDark s =
     (case savedTheme of
        None \<Rightarrow> s\<lparr> isDarkMode := prefersDark \<rparr>
      | Some t \<Rightarrow> if t \<noteq> [] then s\<lparr> isDarkMode := (t = ''dark'') \<rparr>
                  else s\<lparr> isDarkMode := prefersDark \<rparr>)"

definition handleKeyPress :: "string \<Rightarrow> state \<Rightarrow> state \<times> search_request option" where
  "handleKeyPress key s = (if key = ''Enter'' then searchUsers_begin (searchTerm s) 1 s else (s, None))"

definition handleNextPage :: "state \<Rightarrow> state \<times> search_request option" where
  "handleNextPage s =
     (if hasNextPage s then searchUsers_begin (searchTerm s) (currentPage s + 1) s else (s, None))"

definition handlePrevPage :: "state \<Rightarrow> state \<times> search_request option" where
  "handlePrevPage s =
     (if currentPage s > 1 then searchUsers_begin (searchTerm s) (currentPage s - 1) s else (s, None))"

subsection \<open>The component with its requests in flight\<close>

text \<open>Handlers run one at a time; a request in flight settles at any later moment, in any
  order. The component is its cells and the requests that have not settled; an event is a
  call of a handler from the page, the effect that loads the theme, or the settling of one
  request in flight, picked by its position. The settling of a request that is not in flight is no event: it changes nothing.\<close>

record component =
  cells :: state
  searches :: "search_request list"
  fetches :: "repos_request list"

definition mount :: component where
  "mount = \<lparr> cells = initial_state, searches = [], fetches = [] \<rparr>"

datatype event =
    SearchChange string
  | KeyPress string
  | OnSearch
  | NextPage
  | PrevPage
  | UserSelect GitHubUser
  | ToggleTheme
  | ThemeLoaded "string option" bool
  | SearchSettled nat "search_data fetch_result"
  | ReposSettled nat "GitHubRepo list fetch_result"

definition remove_nth :: "nat \<Rightarrow> 'a list \<Rightarrow> 'a list" where
  "remove_nth i xs = take i xs @ drop (Suc i) xs"

definition issue :: "component \<Rightarrow> state \<times> search_request option \<Rightarrow> component" where
  "issue c out =
     (case out of
        (s', None) \<Rightarrow> c\<lparr> cells := s' \<rparr>
      | (s', Some req) \<Rightarrow> c\<lparr> cells := s', searches := searches c @ [req] \<rparr>)"

fun step :: "event \<Rightarrow> component \<Rightarrow> component" where
  "step (SearchChange v) c = c\<lparr> cells := handleSearchChange v (cells c) \<rparr>"
| "step (KeyPress key) c = issue c (handleKeyPress key (cells c))"
| "step OnSearch c = issue c (searchUsers_begin (searchTerm (cells c)) 1 (cells c))"
| "step NextPage c = issue c (handleNextPage (cells c))"
| "step PrevPage c = issue c (handlePrevPage (cells c))"
| "step (UserSelect user) c =
     (case handleUserSelect user (cells c) of
        (s', req) \<Rightarrow> c\<lparr> cells := s', fetches := fetches c @ [req] \<rparr>)"
| "step ToggleTheme c = c\<lparr> cells := toggleTheme (cells c) \<rparr>"
| "step (ThemeLoaded savedTheme prefersDark) c =
     c\<lparr> cells := initTheme savedTheme prefersDark (cells c) \<rparr>"
| "step (SearchSettled i r) c =
     (if i < length (searches c)
      then c\<lparr> cells := searchUsers_resume (page (searches c ! i)) r (cells c),
              searches := remove_nth i (searches c) \<rparr>
      else c)"
| "step (ReposSettled i r) c =
     (if i < length (fetches c)
      then c\<lparr> cells := fetchUserRepositories_resume r (cells c),
              fetches := remove_nth i (fetches c) \<rparr>
      else c)"

text \<open>A run of events, first to last.\<close>

fun run :: "event list \<Rightarrow> component \<Rightarrow> component" where
  "run [] c = c"
| "run (e # es) c = run es (step e c)"

subsection \<open>The pagination rule as the specification words it\<close>

text \<open>The specification's \<open>HARD_CAP\<close>, the number of results the remote search will ever
  enumerate (the source names it in a comment: a limit of 1000 results), and its rule
  \<open>hasNextPage = itemsReturnedThisPage == pageSize AND
  requestedPage < ceil(min(totalCount, HARD_CAP) / pageSize)\<close>. These two follow the words of
  the specification, to be compared with what \<open>searchUsers\<close> computes.\<close>

definition HARD_CAP :: int where
  "HARD_CAP = 1000"

definition spec_hasNextPage :: "int \<Rightarrow> int \<Rightarrow> int \<Rightarrow> int \<Rightarrow> bool" where
  "spec_hasNextPage totalCount pageSize requestedPage itemsReturnedThisPage =
     (itemsReturnedThisPage = pageSize \<and>
      requestedPage < ceil_div (min totalCount HARD_CAP) pageSize)"

subsection \<open>Sample data and sample runs\<close>

definition octocat :: GitHubUser where
  "octocat = \<lparr> id_user = 583231, login = ''octocat'',
     avatar_url = ''https://avatars.githubusercontent.com/u/583231'',
     html_url = ''https://github.com/octocat'', public_repos = 8, score = 1 \<rparr>"

definition torvalds :: GitHubUser where
  "torvalds = \<lparr> id_user = 1024025, login = ''torvalds'',
     avatar_url = ''https://avatars.githubusercontent.com/u/1024025'',
     html_url = ''https://github.com/torvalds'', public_repos = 11, score = 1 \<rparr>"

definition hello_world :: GitHubRepo where
  "hello_world = \<lparr> id_repo = 1296269, name_repo = ''Hello-World'',
     full_name = ''octocat/Hello-World'', description = Some ''My first repository on GitHub!'',
     html_url_repo = ''https://github.com/octocat/Hello-World'', stargazers_count = 80,
     language = None, updated_at = ''2011-01-26T19:14:43Z'' \<rparr>"

definition linux :: GitHubRepo where
  "linux = \<lparr> id_repo = 2325298, name_repo = ''linux'', full_name = ''torvalds/linux'',
     description = Some ''Linux kernel source tree'',
     html_url_repo = ''https://github.com/torvalds/linux'', stargazers_count = 170000,
     language = Some ''C'', updated_at = ''2024-05-01T00:00:00Z'' \<rparr>"

text \<open>Two users are selected one after the other; the second user's fetch settles first and
  the first user's fetch last.\<close>

definition stale_completion :: "event list" where
  "stale_completion =
     [UserSelect octocat, UserSelect torvalds,
      ReposSettled 1 (Response True (JsonValue [linux])),
      ReposSettled 0 (Response True (JsonValue [hello_world]))]"

text \<open>A user is selected and the repositories arrive; then another user is selected.\<close>

definition reselect :: "event list" where
  "reselect =
     [UserSelect octocat, ReposSettled 0 (Response True (JsonValue [hello_world])),
      UserSelect torvalds]"

text \<open>A search is answered with a status that is not a success; then the query is replaced by
  a blank and the search button is pressed.\<close>

definition blank_after_failure :: "event list" where
  "blank_after_failure =
     [SearchChange ''zzz'', OnSearch, SearchSettled 0 (Response False (JsonThrows NonError)),
      SearchChange '' '', OnSearch]"

text \<open>A search is answered with a success status and the body \<open>{"total_count": 0}\<close>.\<close>

definition items_missing :: "event list" where
  "items_missing =
     [SearchChange ''zzz'', OnSearch,
      SearchSettled 0 (Response True (JsonValue (DataObj None (Some 0))))]"

section \<open>Properties\<close>

lemmas search_defs =
  searchUsers_def searchUsers_begin_def searchUsers_resume_def searchUsers_try_def
  searchUsers_catch_def searchUsers_finally_def

lemmas repos_defs =
  fetchUserRepositories_begin_def fetchUserRepositories_resume_def fetchUserRepositories_try_def
  fetchUserRepositories_catch_def fetchUserRepositories_finally_def handleUserSelect_def

lemmas handler_defs =
  handleSearchChange_def toggleTheme_def initTheme_def handleKeyPress_def handleNextPage_def
  handlePrevPage_def issue_def

lemmas sample_defs =
  octocat_def torvalds_def hello_world_def linux_def mount_def initial_state_def remove_nth_def

lemmas js_defs =
  trim_def is_white_space_def totalPages_def ceil_div_def usersPerPage_def HARD_CAP_def

subsection \<open>Shared facts\<close>

text \<open>The source's bound on the page count, \<open>min(ceil(total / 5), 200)\<close>, is the
  specification's \<open>ceil(min(total, 1000) / 5)\<close>, for every integer.\<close>

lemma totalPages_cap:
  "min (ceil_div tc usersPerPage) 200 = ceil_div (min tc HARD_CAP) usersPerPage"
  unfolding ceil_div_def usersPerPage_def HARD_CAP_def
  by (simp add: min_def) presburger

text \<open>A query of no-break spaces is blank: the search resets and issues no request.\<close>

lemma no_break_space_is_blank:
  "trim [CHR 0xA0, CHR 0x20, CHR 0xA0] = [] \<and>
   snd (searchUsers_begin [CHR 0xA0, CHR 0x20, CHR 0xA0] pg s) = None"
  by (simp add: searchUsers_begin_def trim_def is_white_space_def)

text \<open>What an event does to the selected user: only \<open>UserSelect\<close> writes the cell.\<close>

lemma step_selectedUser:
  "selectedUser (cells (step e c)) =
     (case e of UserSelect u \<Rightarrow> Some u | _ \<Rightarrow> selectedUser (cells c))"
  by (cases e)
     (auto simp: search_defs repos_defs handler_defs Let_def
           split: fetch_result.splits json_result.splits search_data.splits option.splits)

text \<open>What an event does to the repositories: only a settled fetch writes the cell.\<close>

lemma step_repositories:
  "repositories (cells (step e c)) =
     (case e of
        ReposSettled i r \<Rightarrow>
          if i < length (fetches c) then repositories (fetchUserRepositories_resume r (cells c))
          else repositories (cells c)
      | _ \<Rightarrow> repositories (cells c))"
  by (cases e)
     (auto simp: search_defs repos_defs handler_defs Let_def
           split: fetch_result.splits json_result.splits search_data.splits option.splits)

lemma run_selectedUser:
  "selectedUser (cells c) \<noteq> None \<Longrightarrow> selectedUser (cells (run es c)) \<noteq> None"
proof (induction es arbitrary: c)
  case Nil
  then show ?case by simp
next
  case (Cons e es)
  have "selectedUser (cells (step e c)) \<noteq> None"
    using Cons.prems by (simp add: step_selectedUser split: event.splits)
  then show ?case
    using Cons.IH by simp
qed

subsection \<open>Selection\<close>

text \<open>
  Claim C1, as the code has it. The claim says that a dependent fetch which completes after
  another entity has been selected is discarded. The code has no selection token and no
  fence: a fetch that settles with a success replaces the repositories with its data and
  ends the loading state, whichever user is selected at that moment and whichever user the
  request was made for, and it leaves the selected user as it is. The last fetch to settle
  wins.
\<close>

theorem settled_fetch_applied_unfenced:
  "i < length (fetches c) \<Longrightarrow>
   cells (step (ReposSettled i (Response True (JsonValue data))) c) =
     (cells c)\<lparr> repositories := data, reposLoading := False \<rparr>"
  by (simp add: repos_defs)

theorem settled_fetch_applied_unfenced_witness:
  "(0::nat) < length (fetches (run [UserSelect octocat, UserSelect torvalds] mount)) \<and>
   cells (step (ReposSettled 0 (Response True (JsonValue [hello_world])))
            (run [UserSelect octocat, UserSelect torvalds] mount)) =
     (cells (run [UserSelect octocat, UserSelect torvalds] mount))
       \<lparr> repositories := [hello_world], reposLoading := False \<rparr>"
  using settled_fetch_applied_unfenced
          [of 0 "run [UserSelect octocat, UserSelect torvalds] mount" "[hello_world]"]
  by (simp add: repos_defs sample_defs)

text \<open>
  Claim C1 as stated fails: octocat is selected, then torvalds; torvalds's repositories
  arrive, then octocat's. At the end torvalds is selected and the repositories shown are
  octocat's.
\<close>

theorem stale_fetch_overwrites_counterexample:
  "selectedUser (cells (run stale_completion mount)) = Some torvalds \<and>
   repositories (cells (run stale_completion mount)) = [hello_world] \<and>
   \<not> reposLoading (cells (run stale_completion mount)) \<and>
   fetches (run stale_completion mount) = [] \<and>
   login octocat \<noteq> login torvalds \<and> [hello_world] \<noteq> [linux]"
  by (simp add: stale_completion_def repos_defs sample_defs)

text \<open>
  Claim C2, as the code has it. The claim says that selecting an entity also clears the
  repositories at once. \<open>handleUserSelect\<close> sets the selected user, sets the dependent loading
  flag, clears the error and issues the fetch for the user's login; it writes no other cell,
  so the repositories of the previous selection stay in the state until the fetch settles.
\<close>

theorem handleUserSelect_effect:
  "handleUserSelect user s =
     (s\<lparr> selectedUser := Some user, reposLoading := True, error := None \<rparr>,
      \<lparr> username = login user \<rparr>)"
  by (simp add: repos_defs)

theorem handleUserSelect_effect_witness:
  "handleUserSelect torvalds (initial_state\<lparr> repositories := [hello_world] \<rparr>) =
     (initial_state\<lparr> repositories := [hello_world], selectedUser := Some torvalds,
                     reposLoading := True \<rparr>,
      \<lparr> username = ''torvalds'' \<rparr>)"
  using handleUserSelect_effect [of torvalds "initial_state\<lparr> repositories := [hello_world] \<rparr>"]
  by (simp add: sample_defs)

text \<open>
  Claim C2 as stated fails: after octocat's repositories have arrived and torvalds is
  selected, torvalds's fetch is in flight and the repositories are still octocat's.
\<close>

theorem select_keeps_old_repositories_counterexample:
  "selectedUser (cells (run reselect mount)) = Some torvalds \<and>
   reposLoading (cells (run reselect mount)) \<and>
   fetches (run reselect mount) = [\<lparr> username = ''torvalds'' \<rparr>] \<and>
   repositories (cells (run reselect mount)) = [hello_world] \<and>
   repositories (cells (run reselect mount)) \<noteq> []"
  by (simp add: reselect_def repos_defs sample_defs)

subsection \<open>The blank query\<close>

text \<open>
  Claim C3 at an input where the code departs from it. The claim says that a search with a
  blank query issues no request and clears the users, the count, the error and the page.
  After a search that failed, the query is replaced by a blank and the search is triggered:
  no request is issued and the users, the count, the page and \<open>hasSearched\<close> are reset, but
  the error of the failed search is still set.
\<close>

theorem blank_query_keeps_error:
  "error (cells (run blank_after_failure mount)) = Some ''Failed to search users'' \<and>
   users (cells (run blank_after_failure mount)) = [] \<and>
   totalUsers (cells (run blank_after_failure mount)) = 0 \<and>
   currentPage (cells (run blank_after_failure mount)) = 1 \<and>
   \<not> hasNextPage (cells (run blank_after_failure mount)) \<and>
   \<not> hasSearched (cells (run blank_after_failure mount)) \<and>
   searches (run blank_after_failure mount) = []"
  by (simp add: blank_after_failure_def search_defs handler_defs sample_defs
                trim_def is_white_space_def)

subsection \<open>Pagination\<close>

text \<open>
  Claim C4. After a search that succeeds, \<open>hasNextPage\<close> is true exactly when the page
  returned holds \<open>pageSize\<close> items and the requested page is below
  \<open>ceil(min(totalCount, HARD_CAP) / pageSize)\<close>, with a page size of 5 and a cap of 1000: for a
  body with its items and its count, the cell is the specification's rule on them; the
  source's bound \<open>min(ceil(totalCount / 5), 200)\<close> is the specification's bound for every
  count; and whenever the \<open>try\<close> completes for a page that is not negative, the cell is the
  rule on the count, the page and the users then in the state.
\<close>

theorem hasNextPage_as_specified:
  "hasNextPage (searchUsers_resume pg (Response True (JsonValue (DataObj (Some xs) (Some tc)))) s)
     = spec_hasNextPage tc usersPerPage pg (int (length xs)) \<and>
   min (ceil_div tc usersPerPage) 200 = ceil_div (min tc HARD_CAP) usersPerPage \<and>
   usersPerPage = 5 \<and> HARD_CAP = 1000 \<and>
   (\<not> isl (searchUsers_try pg r s) \<longrightarrow> 0 \<le> pg \<longrightarrow>
      hasNextPage (searchUsers_resume pg r s)
        = spec_hasNextPage (totalUsers (searchUsers_resume pg r s)) usersPerPage
            (currentPage (searchUsers_resume pg r s))
            (int (length (users (searchUsers_resume pg r s)))))"
proof -
  have cap: "min (ceil_div n usersPerPage) 200 = ceil_div (min n HARD_CAP) usersPerPage" for n
    by (rule totalPages_cap)
  have full: "hasNextPage (searchUsers_resume pg (Response True (JsonValue (DataObj (Some xs) (Some tc)))) s)
     = spec_hasNextPage tc usersPerPage pg (int (length xs))"
    using cap [of tc]
    by (auto simp: search_defs spec_hasNextPage_def totalPages_def Let_def)
  have vals: "usersPerPage = 5 \<and> HARD_CAP = 1000"
    by (simp add: usersPerPage_def HARD_CAP_def)
  have zero: "ceil_div (min 0 HARD_CAP) usersPerPage = 0"
    by (simp add: ceil_div_def HARD_CAP_def usersPerPage_def)
  have any: "hasNextPage (searchUsers_resume pg r s)
        = spec_hasNextPage (totalUsers (searchUsers_resume pg r s)) usersPerPage
            (currentPage (searchUsers_resume pg r s))
            (int (length (users (searchUsers_resume pg r s))))"
    if "\<not> isl (searchUsers_try pg r s)" and "0 \<le> pg"
    using that cap zero
    by (auto simp: search_defs spec_hasNextPage_def totalPages_def Let_def
             split: fetch_result.splits json_result.splits search_data.splits option.splits
                    if_splits)
  show ?thesis
    using full cap [of tc] vals any by blast
qed

theorem hasNextPage_as_specified_witness:
  "hasNextPage (searchUsers_resume 3
      (Response True (JsonValue (DataObj (Some [octocat, torvalds, octocat, torvalds, octocat])
         (Some 1000)))) initial_state) \<and>
   spec_hasNextPage 1000 5 3 5 \<and>
   \<not> isl (searchUsers_try 3
      (Response True (JsonValue (DataObj (Some [octocat, torvalds]) (Some 12)))) initial_state) \<and>
   (0::int) \<le> 3 \<and>
   \<not> hasNextPage (searchUsers_resume 3
      (Response True (JsonValue (DataObj (Some [octocat, torvalds]) (Some 12)))) initial_state) \<and>
   \<not> spec_hasNextPage 12 5 3 2"
  using hasNextPage_as_specified
          [where pg = 3 and xs = "[octocat, torvalds, octocat, torvalds, octocat]"
             and tc = 1000 and s = initial_state
             and r = "Response True (JsonValue (DataObj (Some [octocat, torvalds]) (Some 12)))"]
  by (simp add: search_defs spec_hasNextPage_def js_defs Let_def)

text \<open>
  Claim C5. A search that ends with fewer users in the state than the page size ends with
  \<open>hasNextPage\<close> false, whatever count the server reported (or failed to report); so it is
  for every body whose items are fewer than the page size.
\<close>

theorem short_page_has_no_next:
  "(int (length xs) < usersPerPage \<longrightarrow>
      \<not> hasNextPage (searchUsers_resume pg (Response True (JsonValue (DataObj (Some xs) tc))) s)) \<and>
   (int (length (users (searchUsers_resume pg r s))) < usersPerPage \<longrightarrow>
      \<not> hasNextPage (searchUsers_resume pg r s))"
  by (auto simp: search_defs Let_def
           split: fetch_result.splits json_result.splits search_data.splits option.splits)

theorem short_page_has_no_next_witness:
  "int (length [octocat]) < usersPerPage \<and>
   users (searchUsers_resume 1 (Response True (JsonValue (DataObj (Some [octocat]) (Some 1000))))
            initial_state) = [octocat] \<and>
   \<not> hasNextPage (searchUsers_resume 1
        (Response True (JsonValue (DataObj (Some [octocat]) (Some 1000)))) initial_state)"
  using short_page_has_no_next
          [where xs = "[octocat]" and pg = 1 and tc = "Some 1000" and s = initial_state
             and r = "Response True (JsonValue (DataObj (Some [octocat]) (Some 1000)))"]
  by (simp add: search_defs js_defs Let_def)

subsection \<open>Failures\<close>

text \<open>
  Claim C6. For every query that is not blank (one that \<open>trim\<close> does not empty), the call
  issues the request for that query and page; when the request fails (\<open>fetch\<close> throws, the
  status is not a success, or the body does not parse), the call ends with the error set to
  a message, the users empty, the count 0 and the search loading flag false; \<open>hasSearched\<close>
  is true, \<open>hasNextPage\<close> is false and no other cell has changed. For a status that is not a
  success the message is \<open>Failed to search users\<close>, and for a thrown value it is the message
  of that value.
\<close>

theorem search_failure_state:
  "trim query \<noteq> [] \<Longrightarrow>
   failed (server \<lparr> q = query, per_page = usersPerPage, page = pg \<rparr>) \<Longrightarrow>
   snd (searchUsers_begin query pg s) = Some \<lparr> q = query, per_page = usersPerPage, page = pg \<rparr> \<and>
   (\<exists>m. searchUsers server query pg s =
          s\<lparr> hasSearched := True, error := Some m, users := [], totalUsers := 0,
             hasNextPage := False, searchLoading := False \<rparr>) \<and>
   (\<forall>body. server \<lparr> q = query, per_page = usersPerPage, page = pg \<rparr> = Response False body \<longrightarrow>
      error (searchUsers server query pg s) = Some ''Failed to search users'') \<and>
   (\<forall>e. server \<lparr> q = query, per_page = usersPerPage, page = pg \<rparr> = FetchThrows e \<longrightarrow>
      error (searchUsers server query pg s) = Some (thrown_message e))"
  by (cases "server \<lparr> q = query, per_page = usersPerPage, page = pg \<rparr>" rule: failed.cases)
     (auto simp: search_defs)

theorem search_failure_state_witness:
  "trim ''octocat'' \<noteq> [] \<and>
   failed (Response False (JsonThrows NonError) :: search_data fetch_result) \<and>
   snd (searchUsers_begin ''octocat'' 1 (initial_state\<lparr> users := [octocat], totalUsers := 1 \<rparr>))
     = Some \<lparr> q = ''octocat'', per_page = 5, page = 1 \<rparr> \<and>
   searchUsers (\<lambda>req. Response False (JsonThrows NonError)) ''octocat'' 1
       (initial_state\<lparr> users := [octocat], totalUsers := 1 \<rparr>) =
     initial_state\<lparr> hasSearched := True, error := Some ''Failed to search users'' \<rparr>"
  using search_failure_state
          [where query = "''octocat''" and pg = 1
             and server = "\<lambda>req. Response False (JsonThrows NonError)"
             and s = "initial_state\<lparr> users := [octocat], totalUsers := 1 \<rparr>"]
  by (simp add: search_defs js_defs initial_state_def)

text \<open>
  Claim C7. When the dependent fetch fails, the handler ends with the error set, the
  repositories empty and the dependent loading flag false, and every other cell (the
  selected user, the users, the count, the current page, \<open>hasNextPage\<close> and the rest) as it
  was when the request settled.
\<close>

theorem fetch_failure_frame:
  "failed r \<Longrightarrow>
   \<exists>m. fetchUserRepositories_resume r s =
         s\<lparr> error := Some m, repositories := [], reposLoading := False \<rparr>"
  by (cases r rule: failed.cases) (auto simp: repos_defs)

theorem fetch_failure_frame_witness:
  "failed (FetchThrows (ErrorObj ''Failed to fetch'') :: GitHubRepo list fetch_result) \<and>
   fetchUserRepositories_resume (FetchThrows (ErrorObj ''Failed to fetch''))
       (initial_state\<lparr> users := [octocat], totalUsers := 1, selectedUser := Some octocat,
                       repositories := [hello_world], reposLoading := True \<rparr>) =
     initial_state\<lparr> users := [octocat], totalUsers := 1, selectedUser := Some octocat,
                    error := Some ''Failed to fetch'' \<rparr>"
  using fetch_failure_frame
          [where r = "FetchThrows (ErrorObj ''Failed to fetch'')"
             and s = "initial_state\<lparr> users := [octocat], totalUsers := 1,
                        selectedUser := Some octocat, repositories := [hello_world],
                        reposLoading := True \<rparr>"]
  by (simp add: repos_defs initial_state_def)

subsection \<open>Running a search twice\<close>

text \<open>
  Claim C8. For every query, page and server, a search run to completion twice with the
  same arguments against the same answers ends in the state in which one run ends.
\<close>

theorem searchUsers_idempotent:
  "searchUsers server query pg (searchUsers server query pg s) = searchUsers server query pg s"
  by (auto simp: search_defs Let_def
           split: fetch_result.splits json_result.splits search_data.splits option.splits)

theorem searchUsers_idempotent_witness:
  "searchUsers (\<lambda>req. Response True (JsonValue (DataObj (Some [octocat]) (Some 1)))) ''octocat'' 1
     (searchUsers (\<lambda>req. Response True (JsonValue (DataObj (Some [octocat]) (Some 1))))
        ''octocat'' 1 initial_state) =
   initial_state\<lparr> hasSearched := True, users := [octocat], totalUsers := 1 \<rparr>"
  using searchUsers_idempotent
          [where server = "\<lambda>req. Response True (JsonValue (DataObj (Some [octocat]) (Some 1)))"
             and query = "''octocat''" and pg = 1 and s = initial_state]
  by (simp add: search_defs js_defs initial_state_def Let_def)

subsection \<open>The selection persists\<close>

text \<open>
  Claim C9. Once a user is selected, no run of events makes the selection empty again; an
  event that changes the selected user is a \<open>UserSelect\<close>, and it writes that user; an event
  that changes the repositories is the settling of a dependent fetch. In particular the
  reset of a blank query and every success and failure of a search leave the selected user
  and the repositories as they were.
\<close>

theorem selectedUser_never_reset:
  "(selectedUser (cells c) \<noteq> None \<longrightarrow> selectedUser (cells (run es c)) \<noteq> None) \<and>
   (selectedUser (cells (step e c)) \<noteq> selectedUser (cells c) \<longrightarrow>
      (\<exists>u. e = UserSelect u \<and> selectedUser (cells (step e c)) = Some u)) \<and>
   (repositories (cells (step e c)) \<noteq> repositories (cells c) \<longrightarrow>
      (\<exists>i r. e = ReposSettled i r)) \<and>
   selectedUser (fst (searchUsers_begin query pg s)) = selectedUser s \<and>
   repositories (fst (searchUsers_begin query pg s)) = repositories s \<and>
   selectedUser (searchUsers_resume pg r s) = selectedUser s \<and>
   repositories (searchUsers_resume pg r s) = repositories s \<and>
   selectedUser (fst (handleUserSelect u s)) = Some u"
proof -
  have persists: "selectedUser (cells c) \<noteq> None \<longrightarrow> selectedUser (cells (run es c)) \<noteq> None"
    by (simp add: run_selectedUser)
  have writer: "selectedUser (cells (step e c)) \<noteq> selectedUser (cells c) \<longrightarrow>
      (\<exists>u. e = UserSelect u \<and> selectedUser (cells (step e c)) = Some u)"
    by (simp add: step_selectedUser split: event.splits)
  have repos: "repositories (cells (step e c)) \<noteq> repositories (cells c) \<longrightarrow>
      (\<exists>i r. e = ReposSettled i r)"
    by (simp add: step_repositories split: event.splits)
  have start: "selectedUser (fst (searchUsers_begin query pg s)) = selectedUser s \<and>
      repositories (fst (searchUsers_begin query pg s)) = repositories s"
    by (simp add: searchUsers_begin_def)
  have settle: "selectedUser (searchUsers_resume pg r s) = selectedUser s \<and>
      repositories (searchUsers_resume pg r s) = repositories s"
    by (auto simp: search_defs Let_def
             split: fetch_result.splits json_result.splits search_data.splits option.splits)
  have sel: "selectedUser (fst (handleUserSelect u s)) = Some u"
    by (simp add: repos_defs)
  show ?thesis
    using persists writer repos start settle sel by blast
qed

theorem selectedUser_never_reset_witness:
  "selectedUser (cells (run [UserSelect octocat] mount)) \<noteq> None \<and>
   selectedUser (cells (run [SearchChange '' '', OnSearch] (run [UserSelect octocat] mount)))
     = Some octocat \<and>
   selectedUser (cells (step (UserSelect torvalds) (run [UserSelect octocat] mount)))
     \<noteq> selectedUser (cells (run [UserSelect octocat] mount)) \<and>
   selectedUser (cells (step (UserSelect torvalds) (run [UserSelect octocat] mount)))
     = Some torvalds \<and>
   repositories (cells (step (ReposSettled 0 (Response True (JsonValue [hello_world])))
                         (run [UserSelect octocat] mount)))
     \<noteq> repositories (cells (run [UserSelect octocat] mount))"
  using selectedUser_never_reset
          [where c = "run [UserSelect octocat] mount" and es = "[SearchChange '' '', OnSearch]"
             and e = "UserSelect torvalds"]
        selectedUser_never_reset
          [where c = "run [UserSelect octocat] mount" and es = "[]"
             and e = "ReposSettled 0 (Response True (JsonValue [hello_world]))"]
  by (simp add: search_defs repos_defs handler_defs sample_defs js_defs)

subsection \<open>A body without items\<close>

text \<open>
  Claim C10, as the code has it. The claim says that a success status with a body that lacks
  \<open>items\<close> always ends in the failure state. The length of the missing array is read only
  when the requested page is below the page count computed from \<open>total_count\<close>; then the
  read throws and the call ends in the failure state (error set, users empty, count 0,
  \<open>hasNextPage\<close> false, loading false, the current page already set to the requested page).
  When \<open>total_count\<close> is missing or the requested page is not below the page count, the
  conjunction stops at its left operand and the call ends as a success with no users: the
  error is not set, the count is the reported one (0 when missing), \<open>hasNextPage\<close> is false
  and loading is false. A body that is \<open>null\<close> throws at the first read and ends in the
  failure state with the current page unchanged.
\<close>

theorem missing_items_outcome:
  "searchUsers_resume pg (Response True (JsonValue (DataObj None tc))) s =
     (if js_less pg (totalPages tc)
      then s\<lparr> users := [], totalUsers := 0, currentPage := pg,
              error := Some (thrown_message TypeError), hasNextPage := False,
              searchLoading := False \<rparr>
      else s\<lparr> users := [], totalUsers := (case tc of None \<Rightarrow> 0 | Some n \<Rightarrow> n),
              currentPage := pg, hasNextPage := False, searchLoading := False \<rparr>) \<and>
   searchUsers_resume pg (Response True (JsonValue DataNull)) s =
     s\<lparr> error := Some (thrown_message TypeError), users := [], totalUsers := 0,
        hasNextPage := False, searchLoading := False \<rparr>"
  by (auto simp: search_defs Let_def)

theorem missing_items_outcome_witness:
  "js_less 1 (totalPages (Some 12)) \<and>
   error (searchUsers_resume 1 (Response True (JsonValue (DataObj None (Some 12)))) initial_state)
     = Some (thrown_message TypeError) \<and>
   \<not> js_less 1 (totalPages None) \<and>
   error (searchUsers_resume 1 (Response True (JsonValue (DataObj None None))) initial_state)
     = None"
  using missing_items_outcome [where pg = 1 and tc = "Some 12" and s = initial_state]
        missing_items_outcome [where pg = 1 and tc = None and s = initial_state]
  by (simp add: js_defs initial_state_def)

text \<open>
  Claim C10 as stated fails: a search for \<open>zzz\<close> answered with a success status and the body
  \<open>{"total_count": 0}\<close> ends with no error set: the call ends as a success with no users.
\<close>

theorem missing_items_success_counterexample:
  "error (cells (run items_missing mount)) = None \<and>
   users (cells (run items_missing mount)) = [] \<and>
   totalUsers (cells (run items_missing mount)) = 0 \<and>
   \<not> hasNextPage (cells (run items_missing mount)) \<and>
   \<not> searchLoading (cells (run items_missing mount)) \<and>
   hasSearched (cells (run items_missing mount)) \<and>
   searches (run items_missing mount) = []"
  by (simp add: items_missing_def search_defs handler_defs sample_defs js_defs)

end
